theory Spec2Isabelle
  imports Complex_Main
begin

section \<open>JavaScript numbers\<close>

text \<open>
  The sample-size engine (\<open>calculateSampleSize\<close> and its helpers) computes on JavaScript
  numbers. A number is modelled as a real extended by the three non-finite values of the
  language: \<open>Infinity\<close>, \<open>-Infinity\<close> and \<open>NaN\<close>. The arithmetic on finite values is
  exact: the rounding, overflow and underflow of binary64 are not part of the model, and
  the two zeros are one value, which divides like \<open>+0\<close>. The special cases (division by
  zero, \<open>Infinity - Infinity\<close>, \<open>0 * Infinity\<close>, the logarithm of zero and of a negative
  number, comparisons with \<open>NaN\<close>) follow the language.

  The program itself rounds: there \<open>Math.pow(1e200, 2)\<close> is \<open>Infinity\<close>,
  \<open>0.5 + 0.9999999999999999\<close> is \<open>1.5\<close> and \<open>1 - 1e-17\<close> is \<open>1\<close>, none of which the
  model reproduces. The results below are stated where this makes no difference: numeric
  values are asserted only at concrete inputs that lie away from a rounding boundary;
  statements over all inputs are equalities between the same expressions of the code,
  order relations that rounding preserves, or non-finiteness, on ranges of the inputs where
  binary64 neither overflows nor rounds a difference to zero.
\<close>

datatype number = Fin real | PosInf | NegInf | NaN

fun isFinite :: "number \<Rightarrow> bool" where
  "isFinite (Fin x) = True"
| "isFinite PosInf = False"
| "isFinite NegInf = False"
| "isFinite NaN = False"

text \<open>The infinity carrying the sign of \<open>s\<close>; \<open>NaN\<close> when \<open>s\<close> is zero.\<close>

definition signed_inf :: "real \<Rightarrow> number" where
  "signed_inf s = (if 0 < s then PosInf else if s < 0 then NegInf else NaN)"

fun sign_of :: "number \<Rightarrow> real" where
  "sign_of (Fin x) = sgn x"
| "sign_of PosInf = 1"
| "sign_of NegInf = - 1"
| "sign_of NaN = 0"

instantiation number :: "{plus, minus, uminus, times, inverse}"
begin

fun uminus_number :: "number \<Rightarrow> number" where
  "uminus_number (Fin x) = Fin (- x)"
| "uminus_number PosInf = NegInf"
| "uminus_number NegInf = PosInf"
| "uminus_number NaN = NaN"

fun plus_number :: "number \<Rightarrow> number \<Rightarrow> number" where
  "plus_number (Fin x) (Fin y) = Fin (x + y)"
| "plus_number NaN b = NaN"
| "plus_number a NaN = NaN"
| "plus_number PosInf NegInf = NaN"
| "plus_number NegInf PosInf = NaN"
| "plus_number PosInf b = PosInf"
| "plus_number NegInf b = NegInf"
| "plus_number (Fin x) b = b"

definition minus_number :: "number \<Rightarrow> number \<Rightarrow> number" where
  "minus_number a b = a + (- b)"

fun times_number :: "number \<Rightarrow> number \<Rightarrow> number" where
  "times_number (Fin x) (Fin y) = Fin (x * y)"
| "times_number NaN b = NaN"
| "times_number a NaN = NaN"
| "times_number a b = signed_inf (sign_of a * sign_of b)"

fun divide_number :: "number \<Rightarrow> number \<Rightarrow> number" where
  "divide_number (Fin x) (Fin y) = (if y = 0 then signed_inf x else Fin (x / y))"
| "divide_number NaN b = NaN"
| "divide_number a NaN = NaN"
| "divide_number (Fin x) b = Fin 0"
| "divide_number a (Fin y) = (if 0 \<le> y then a else - a)"
| "divide_number a b = NaN"

definition inverse_number :: "number \<Rightarrow> number" where
  "inverse_number a = Fin 1 div a"

instance ..

end

text \<open>The comparisons \<open><\<close>, \<open>>\<close> and \<open>>=\<close> and strict equality \<open>===\<close>: false when a side is \<open>NaN\<close>.\<close>

fun num_lt :: "number \<Rightarrow> number \<Rightarrow> bool" where
  "num_lt (Fin x) (Fin y) = (x < y)"
| "num_lt NaN b = False"
| "num_lt a NaN = False"
| "num_lt a PosInf = (a \<noteq> PosInf)"
| "num_lt NegInf b = (b \<noteq> NegInf)"
| "num_lt a b = False"

definition num_gt :: "number \<Rightarrow> number \<Rightarrow> bool" where
  "num_gt a b = num_lt b a"

fun strict_eq :: "number \<Rightarrow> number \<Rightarrow> bool" where
  "strict_eq NaN b = False"
| "strict_eq a NaN = False"
| "strict_eq a b = (a = b)"


text \<open>\<open>Math.abs\<close>, \<open>Math.ceil\<close>, \<open>Math.log\<close> and \<open>Math.pow(x, 2)\<close>.\<close>

fun Math_abs :: "number \<Rightarrow> number" where
  "Math_abs (Fin x) = Fin \<bar>x\<bar>"
| "Math_abs PosInf = PosInf"
| "Math_abs NegInf = PosInf"
| "Math_abs NaN = NaN"

fun Math_ceil :: "number \<Rightarrow> number" where
  "Math_ceil (Fin x) = Fin (of_int \<lceil>x\<rceil>)"
| "Math_ceil a = a"

fun Math_log :: "number \<Rightarrow> number" where
  "Math_log (Fin x) = (if 0 < x then Fin (ln x) else if x = 0 then NegInf else NaN)"
| "Math_log PosInf = PosInf"
| "Math_log NegInf = NaN"
| "Math_log NaN = NaN"

fun Math_pow2 :: "number \<Rightarrow> number" where
  "Math_pow2 (Fin x) = Fin (x * x)"
| "Math_pow2 PosInf = PosInf"
| "Math_pow2 NegInf = PosInf"
| "Math_pow2 NaN = NaN"

section \<open>Strings\<close>

text \<open>
  A string is a list of 8-bit characters; the non-ASCII characters of the source's string
  literals are written as their UTF-8 bytes. \<open>toLowerCase\<close> maps the letters \<open>A\<close> to \<open>Z\<close>
  and leaves every other character as it is; \<open>includes_str\<close> is the substring test \<open>includes\<close>.
\<close>

definition toLowerChar :: "char \<Rightarrow> char" where
  "toLowerChar c =
     (if (65::nat) \<le> of_char c \<and> of_char c \<le> (90::nat)
      then char_of (of_char c + (32::nat)) else c)"

definition toLowerCase :: "string \<Rightarrow> string" where
  "toLowerCase s = map toLowerChar s"

fun startsWith :: "string \<Rightarrow> string \<Rightarrow> bool" where
  "startsWith s [] = True"
| "startsWith [] (c # cs) = False"
| "startsWith (x # xs) (c # cs) = (x = c \<and> startsWith xs cs)"

fun includes_str :: "string \<Rightarrow> string \<Rightarrow> bool" where
  "includes_str [] sub = (sub = [])"
| "includes_str (x # xs) sub = (startsWith (x # xs) sub \<or> includes_str xs sub)"

section \<open>The inverse normal CDF and the z-score tables\<close>

definition a_coef :: "number list" where
  "a_coef = [Fin 0, Fin (- 39.69683028665376), Fin 220.9460984245205,
             Fin (- 275.9285104469687), Fin 138.3577518672690,
             Fin (- 30.66479806614716), Fin 2.506628277459239]"

definition b_coef :: "number list" where
  "b_coef = [Fin 0, Fin (- 54.47609879822406), Fin 161.5858368580409,
             Fin (- 155.6989798598866), Fin 66.80131188771972,
             Fin (- 13.28068155288572)]"

definition c_coef :: "number list" where
  "c_coef = [Fin 0, Fin (- 0.007784894002430293), Fin (- 0.3223964580411365),
             Fin (- 2.400758277161838), Fin (- 2.549732539343734),
             Fin 4.374664141464968, Fin 2.938163982698783]"

definition d_coef :: "number list" where
  "d_coef = [Fin 0, Fin 0.007784695709041462, Fin 0.3224671290700398,
             Fin 2.445134137142996, Fin 3.754408661907416]"

definition inverseNormalCDF :: "number \<Rightarrow> number" where
  "inverseNormalCDF p =
     (let x = p - Fin 0.5 in
      if num_lt (Math_abs x) (Fin 0.42) then
        (let r = x * x in
         x * (((a_coef ! (4::nat) * r + a_coef ! (3::nat)) * r + a_coef ! (2::nat)) * r + a_coef ! (1::nat)) * r
           + a_coef ! (0::nat) / ((((b_coef ! (4::nat) * r + b_coef ! (3::nat)) * r + b_coef ! (2::nat)) * r + b_coef ! (1::nat)) * r + Fin 1))
      else
        (let r0 = (if num_gt x (Fin 0) then Fin 1 - p else p);
             r = Math_log (- Math_log r0);
             ret = (((c_coef ! (4::nat) * r + c_coef ! (3::nat)) * r + c_coef ! (2::nat)) * r + c_coef ! (1::nat)) * r
                     + c_coef ! (0::nat) / ((d_coef ! (4::nat) * r + d_coef ! (3::nat)) * r + d_coef ! (2::nat)) * r
                     + d_coef ! (1::nat) * r + Fin 1
         in if num_lt x (Fin 0) then - ret else ret))"

definition getZScore :: "number \<Rightarrow> number" where
  "getZScore p =
     (if strict_eq p (Fin 0.05) then Fin 1.96
      else if strict_eq p (Fin 0.01) then Fin 2.576
      else if strict_eq p (Fin 0.001) then Fin 3.291
      else Math_abs (inverseNormalCDF (p / Fin 2)))"

definition getPowerZScore :: "number \<Rightarrow> number" where
  "getPowerZScore pw =
     (if strict_eq pw (Fin 0.8) then Fin 0.842
      else if strict_eq pw (Fin 0.9) then Fin 1.282
      else if strict_eq pw (Fin 0.95) then Fin 1.645
      else Math_abs (inverseNormalCDF (Fin 1 - pw)))"

definition getFCritical :: "number \<Rightarrow> number \<Rightarrow> number \<Rightarrow> number" where
  "getFCritical al df1 df2 =
     (if strict_eq al (Fin 0.05) \<and> strict_eq df1 (Fin 1) then Fin 3.84
      else if strict_eq al (Fin 0.01) \<and> strict_eq df1 (Fin 1) then Fin 6.63
      else Fin 3.84)"

definition calculateANOVASampleSize :: "number \<Rightarrow> number \<Rightarrow> number \<Rightarrow> number \<Rightarrow> number" where
  "calculateANOVASampleSize eff pw al grp =
     (let zAlpha = Fin 1.96; zBeta = Fin 0.842 in
      Fin 2 * Math_pow2 (zAlpha + zBeta) / (grp * Math_pow2 eff))"

section \<open>The sample-size calculation\<close>

text \<open>
  The parameter and result objects. The field \<open>power\<close> is named \<open>power_p\<close> here, and an
  absent \<open>groups\<close> is \<open>None\<close>.
\<close>

record SampleSizeParams =
  testType :: string
  effectSize :: number
  power_p :: number
  alpha :: number
  groups :: "number option"

record SampleSizeResult =
  sampleSize :: number
  totalSampleSize :: number
  adjustedSampleSize :: number
  formula :: string
  assumptions :: "string list"

text \<open>The formula strings, with the non-ASCII characters as UTF-8 bytes.\<close>

definition formula_two_sample :: string where
  "formula_two_sample =
     ''n = 2 '' @ [CHR 0xC3, CHR 0x97] @ '' (z_'' @ [CHR 0xCE, CHR 0xB1] @ ''/2 + z_''
       @ [CHR 0xCE, CHR 0xB2] @ '')'' @ [CHR 0xC2, CHR 0xB2] @ '' / ''
       @ [CHR 0xCE, CHR 0xB4, CHR 0xC2, CHR 0xB2]"

definition formula_paired :: string where
  "formula_paired =
     ''n = (z_'' @ [CHR 0xCE, CHR 0xB1] @ ''/2 + z_'' @ [CHR 0xCE, CHR 0xB2] @ '')''
       @ [CHR 0xC2, CHR 0xB2] @ '' / '' @ [CHR 0xCE, CHR 0xB4, CHR 0xC2, CHR 0xB2]"

definition formula_anova :: string where
  "formula_anova =
     ''n = '' @ [CHR 0xCE, CHR 0xBB] @ '' / (k '' @ [CHR 0xC3, CHR 0x97] @ '' f''
       @ [CHR 0xC2, CHR 0xB2] @ '') where '' @ [CHR 0xCE, CHR 0xBB]
       @ '' is noncentrality parameter''"

definition formula_proportion :: string where
  "formula_proportion =
     ''n = 2 '' @ [CHR 0xC3, CHR 0x97] @ '' p'' @ [CHR 0xCC, CHR 0x84] @ ''(1-p''
       @ [CHR 0xCC, CHR 0x84] @ '') '' @ [CHR 0xC3, CHR 0x97] @ '' (z_''
       @ [CHR 0xCE, CHR 0xB1] @ ''/2 + z_'' @ [CHR 0xCE, CHR 0xB2] @ '')''
       @ [CHR 0xC2, CHR 0xB2] @ '' / (p'' @ [CHR 0xE2, CHR 0x82, CHR 0x82] @ ''-p''
       @ [CHR 0xE2, CHR 0x82, CHR 0x81] @ '')'' @ [CHR 0xC2, CHR 0xB2]"

definition formula_correlation :: string where
  "formula_correlation =
     ''n = (z_'' @ [CHR 0xCE, CHR 0xB1] @ ''/2 + z_'' @ [CHR 0xCE, CHR 0xB2] @ '')''
       @ [CHR 0xC2, CHR 0xB2] @ '' / z_r'' @ [CHR 0xC2, CHR 0xB2] @ '' + 3''"

text \<open>The case labels of the \<open>switch\<close>; every other lower-cased test type takes its default.\<close>

definition known_test_types :: "string list" where
  "known_test_types =
     [''two-sample t-test'', ''independent t-test'', ''paired t-test'', ''dependent t-test'',
      ''one-way anova'', ''proportion test'', ''chi-square test'', ''correlation test'']"

text \<open>The parameter default \<open>groups = 2\<close>, taken when the field is absent.\<close>

definition groups_or_default :: "number option \<Rightarrow> number" where
  "groups_or_default g = (case g of None \<Rightarrow> Fin 2 | Some k \<Rightarrow> k)"

text \<open>
  The \<open>switch\<close> on the lower-cased test type: the per-group sample size, the formula
  string and the assumptions of the selected branch.
\<close>

definition family_branch ::
  "string \<Rightarrow> number \<Rightarrow> number \<Rightarrow> number \<Rightarrow> number \<Rightarrow> number \<times> string \<times> string list" where
  "family_branch tt eff pw al grp =
     (if tt = ''two-sample t-test'' \<or> tt = ''independent t-test'' then
        (let zAlpha = getZScore al; zBeta = getPowerZScore pw in
         (Math_ceil (Fin 2 * Math_pow2 (zAlpha + zBeta) / Math_pow2 eff),
          formula_two_sample,
          [''Normal distribution'', ''Equal variances'', ''Independent observations'',
           ''Continuous outcome variable'']))
      else if tt = ''paired t-test'' \<or> tt = ''dependent t-test'' then
        (let zAlphaPaired = getZScore al; zBetaPaired = getPowerZScore pw in
         (Math_ceil (Math_pow2 (zAlphaPaired + zBetaPaired) / Math_pow2 eff),
          formula_paired,
          [''Normal distribution of differences'', ''Paired observations'',
           ''Continuous outcome variable'']))
      else if tt = ''one-way anova'' then
        (let fEffect = eff;
             n = Math_ceil (calculateANOVASampleSize fEffect pw al grp);
             dfError = grp * (n - Fin 1);
             fCritical = getFCritical al (grp - Fin 1) dfError in
         (n,
          formula_anova,
          [''Normal distribution within groups'', ''Equal variances (homoscedasticity)'',
           ''Independent observations'', ''Continuous outcome variable'']))
      else if tt = ''proportion test'' \<or> tt = ''chi-square test'' then
        (let p1 = Fin 0.5;
             p2 = p1 + eff;
             pooledP = (p1 + p2) / Fin 2;
             zAlphaProp = getZScore al;
             zBetaProp = getPowerZScore pw in
         (Math_ceil (Fin 2 * pooledP * (Fin 1 - pooledP) * Math_pow2 (zAlphaProp + zBetaProp)
                       / Math_pow2 (p2 - p1)),
          formula_proportion,
          [''Binary outcome variable'', ''Independent observations'',
           ''Adequate expected frequencies ('' @ [CHR 0xE2, CHR 0x89, CHR 0xA5] @ ''5 per cell)'']))
      else if tt = ''correlation test'' then
        (let r = eff;
             zR = Fin 0.5 * Math_log ((Fin 1 + r) / (Fin 1 - r));
             zAlphaCorr = getZScore al;
             zBetaCorr = getPowerZScore pw in
         (Math_ceil (Math_pow2 (zAlphaCorr + zBetaCorr) / Math_pow2 zR + Fin 3),
          formula_correlation,
          [''Bivariate normal distribution'', ''Linear relationship'',
           ''Independent observations'', ''Continuous variables'']))
      else
        (let zAlphaDef = getZScore al; zBetaDef = getPowerZScore pw in
         (Math_ceil (Fin 2 * Math_pow2 (zAlphaDef + zBetaDef) / Math_pow2 eff),
          formula_two_sample,
          [''Normal distribution'', ''Equal variances'', ''Independent observations''])))"

definition calculateSampleSize :: "SampleSizeParams \<Rightarrow> SampleSizeResult" where
  "calculateSampleSize params =
     (let grp = groups_or_default (groups params);
          tt = toLowerCase (testType params);
          (n, f, asm) = family_branch tt (effectSize params) (power_p params) (alpha params) grp;
          total = (if includes_str tt ''paired'' then n else n * grp);
          adjusted = Math_ceil (total * Fin 1.2)
      in \<lparr>sampleSize = n, totalSampleSize = total, adjustedSampleSize = adjusted,
          formula = f, assumptions = asm\<rparr>)"

text \<open>
  The call at run time. The static type of \<open>testType\<close> is not checked when the program
  runs: the route handler passes on whatever the request body holds. The one operation of
  \<open>calculateSampleSize\<close> that can throw is the method call \<open>testType.toLowerCase()\<close> in the
  head of the \<open>switch\<close>, which raises a \<open>TypeError\<close> when the value is not a string;
  arithmetic, comparisons, the \<open>Math\<close> functions and \<open>includes\<close> on a string do not throw.
\<close>

datatype js_value = JUndefined | JNull | JBoolean bool | JNumber number | JString string | JObject

datatype error = TypeError

definition calculateSampleSize_call ::
  "js_value \<Rightarrow> number \<Rightarrow> number \<Rightarrow> number \<Rightarrow> number option \<Rightarrow> error + SampleSizeResult" where
  "calculateSampleSize_call v eff pw al g =
     (case v of
        JString s \<Rightarrow>
          Inr (calculateSampleSize
                 \<lparr>testType = s, effectSize = eff, power_p = pw, alpha = al, groups = g\<rparr>)
      | _ \<Rightarrow> Inl TypeError)"

section \<open>Basic facts\<close>

lemma toLowerChar_idem: "toLowerChar (toLowerChar c) = toLowerChar c"
proof (cases "(65::nat) \<le> of_char c \<and> of_char c \<le> (90::nat)")
  case True
  then have "of_char c + (32::nat) < 256" by simp
  then have "of_char (char_of (of_char c + (32::nat))) = (of_char c + 32 :: nat)"
    by (simp add: of_char_of)
  with True show ?thesis by (simp add: toLowerChar_def)
next
  case False
  then show ?thesis unfolding toLowerChar_def by presburger
qed

lemma toLowerCase_idem: "toLowerCase (toLowerCase s) = toLowerCase s"
  by (simp add: toLowerCase_def toLowerChar_idem)

lemma lower_two_sample: "toLowerCase ''two-sample t-test'' = ''two-sample t-test''"
  by code_simp

lemma lower_Two_Sample: "toLowerCase ''Two-Sample T-Test'' = ''two-sample t-test''"
  by code_simp

lemma lower_anova: "toLowerCase ''one-way anova'' = ''one-way anova''"
  by code_simp

lemma lower_Paired: "toLowerCase ''Paired T-Test'' = ''paired t-test''"
  by code_simp

lemma lower_dependent: "toLowerCase ''dependent t-test'' = ''dependent t-test''"
  by code_simp

lemma lower_paired_wilcoxon: "toLowerCase ''paired wilcoxon test'' = ''paired wilcoxon test''"
  by code_simp

lemma lower_unpaired: "toLowerCase ''unpaired t-test'' = ''unpaired t-test''"
  by code_simp

lemma lower_regression: "toLowerCase ''regression'' = ''regression''"
  by code_simp

lemma strict_eq_Fin: "strict_eq a (Fin x) = (a = Fin x)"
  by (cases a) simp_all

text \<open>The fields of the result, read off the definition.\<close>

lemma sampleSize_unfold:
  "sampleSize (calculateSampleSize p) =
     fst (family_branch (toLowerCase (testType p)) (effectSize p) (power_p p) (alpha p)
            (groups_or_default (groups p)))"
  by (simp add: calculateSampleSize_def Let_def split: prod.splits)

lemma formula_unfold:
  "formula (calculateSampleSize p) =
     fst (snd (family_branch (toLowerCase (testType p)) (effectSize p) (power_p p) (alpha p)
            (groups_or_default (groups p))))"
  by (simp add: calculateSampleSize_def Let_def split: prod.splits)

lemma total_unfold:
  "totalSampleSize (calculateSampleSize p) =
     (if includes_str (toLowerCase (testType p)) ''paired''
      then sampleSize (calculateSampleSize p)
      else sampleSize (calculateSampleSize p) * groups_or_default (groups p))"
  by (simp add: calculateSampleSize_def Let_def split: prod.splits)

lemma adjusted_unfold:
  "adjustedSampleSize (calculateSampleSize p) =
     Math_ceil (totalSampleSize (calculateSampleSize p) * Fin 1.2)"
  by (simp add: calculateSampleSize_def Let_def split: prod.splits)

lemma family_branch_default:
  "tt \<notin> set known_test_types \<Longrightarrow>
   fst (family_branch tt e pw al grp) = fst (family_branch ''two-sample t-test'' e pw al grp)
   \<and> fst (snd (family_branch tt e pw al grp))
       = fst (snd (family_branch ''two-sample t-test'' e pw al grp))"
  by (simp add: family_branch_def known_test_types_def Let_def)

section \<open>The worked example of the two-sample t-test\<close>

text \<open>
  C1 (as amended). For alpha 0.05, power 0.80, test type "two-sample t-test", effect size
  0.5 and two groups, the per-group size is \<open>ceil(2 * (1.96 + 0.842)\<^sup>2 / 0.25)\<close>, which is
  63 (the quotient is 62.809632), the total is 126 and the dropout-adjusted size is
  \<open>ceil(126 * 1.2) = 152\<close>.
\<close>

theorem two_sample_example:
  "sampleSize (calculateSampleSize \<lparr>testType = ''two-sample t-test'', effectSize = Fin 0.5,
       power_p = Fin 0.8, alpha = Fin 0.05, groups = Some (Fin 2)\<rparr>) = Fin 63
   \<and> totalSampleSize (calculateSampleSize \<lparr>testType = ''two-sample t-test'', effectSize = Fin 0.5,
       power_p = Fin 0.8, alpha = Fin 0.05, groups = Some (Fin 2)\<rparr>) = Fin 126
   \<and> adjustedSampleSize (calculateSampleSize \<lparr>testType = ''two-sample t-test'', effectSize = Fin 0.5,
       power_p = Fin 0.8, alpha = Fin 0.05, groups = Some (Fin 2)\<rparr>) = Fin 152"
  by (simp add: calculateSampleSize_def family_branch_def lower_two_sample
        getZScore_def getPowerZScore_def groups_or_default_def)

text \<open>
  C1 as stated (64, 128 and 154) does not hold at this input: already the per-group size
  is not 64.
\<close>

theorem worked_example_is_not_64_128_154:
  "\<not> (sampleSize (calculateSampleSize \<lparr>testType = ''two-sample t-test'', effectSize = Fin 0.5,
         power_p = Fin 0.8, alpha = Fin 0.05, groups = Some (Fin 2)\<rparr>) = Fin 64
      \<and> totalSampleSize (calculateSampleSize \<lparr>testType = ''two-sample t-test'', effectSize = Fin 0.5,
         power_p = Fin 0.8, alpha = Fin 0.05, groups = Some (Fin 2)\<rparr>) = Fin 128
      \<and> adjustedSampleSize (calculateSampleSize \<lparr>testType = ''two-sample t-test'', effectSize = Fin 0.5,
         power_p = Fin 0.8, alpha = Fin 0.05, groups = Some (Fin 2)\<rparr>) = Fin 154)"
  by (simp add: calculateSampleSize_def family_branch_def lower_two_sample
        getZScore_def getPowerZScore_def groups_or_default_def)

section \<open>Case-insensitivity\<close>

text \<open>
  C8. The result for a test type is the result for its lower-cased form, in every field and
  for every setting of the numeric parameters; in particular "Two-Sample T-Test" and
  "two-sample t-test" give the same result.
\<close>

theorem calculateSampleSize_case_insensitive:
  "calculateSampleSize (p\<lparr>testType := toLowerCase (testType p)\<rparr>) = calculateSampleSize p
   \<and> calculateSampleSize \<lparr>testType = ''Two-Sample T-Test'', effectSize = e, power_p = pw,
        alpha = al, groups = g\<rparr>
     = calculateSampleSize \<lparr>testType = ''two-sample t-test'', effectSize = e, power_p = pw,
        alpha = al, groups = g\<rparr>"
  by (simp add: calculateSampleSize_def toLowerCase_idem lower_two_sample lower_Two_Sample)

section \<open>The dropout adjustment\<close>

text \<open>
  C9. For every input the adjusted size is \<open>Math.ceil\<close> of the total size times the
  constant 1.2; the factor is the same literal for every test type and every setting of the
  parameters.
\<close>

theorem adjusted_is_ceil_of_total_times_1_2:
  "adjustedSampleSize (calculateSampleSize p)
     = Math_ceil (totalSampleSize (calculateSampleSize p) * Fin 1.2)"
  by (simp add: calculateSampleSize_def Let_def split: prod.splits)

section \<open>The one-way ANOVA branch\<close>

text \<open>
  C10. For test type "one-way anova" the per-group size does not depend on power and alpha:
  two calls with the same effect size and groups give the same \<open>sampleSize\<close>, whatever
  the two power values and the two alpha values are.
\<close>

theorem anova_sampleSize_independent_of_power_alpha:
  "sampleSize (calculateSampleSize \<lparr>testType = ''one-way anova'', effectSize = e,
       power_p = pw1, alpha = al1, groups = g\<rparr>)
   = sampleSize (calculateSampleSize \<lparr>testType = ''one-way anova'', effectSize = e,
       power_p = pw2, alpha = al2, groups = g\<rparr>)"
  by (simp add: calculateSampleSize_def family_branch_def lower_anova
        calculateANOVASampleSize_def Let_def)

text \<open>
  C3. The claim asks for \<open>ceil(2 * (z_alpha + z_beta)\<^sup>2 / (k * f\<^sup>2))\<close> with the quantiles the
  resolver yields for the given alpha and power. The code does not compute that: the helper
  is handed power and alpha and ignores them. At alpha 0.01, power 0.90, effect size 0.5
  and two groups the code returns 32, while the formula with the resolver's quantiles 2.576
  and 1.282 gives 60.
\<close>

theorem anova_ignores_resolved_quantiles:
  "sampleSize (calculateSampleSize \<lparr>testType = ''one-way anova'', effectSize = Fin 0.5,
       power_p = Fin 0.9, alpha = Fin 0.01, groups = Some (Fin 2)\<rparr>) = Fin 32
   \<and> Math_ceil (Fin 2 * Math_pow2 (getZScore (Fin 0.01) + getPowerZScore (Fin 0.9))
        / (Fin 2 * Math_pow2 (Fin 0.5))) = Fin 60"
  by (simp add: calculateSampleSize_def family_branch_def lower_anova
        calculateANOVASampleSize_def getZScore_def getPowerZScore_def groups_or_default_def)

section \<open>The z-score resolver\<close>

text \<open>The two tables, and the fallback for every value outside them.\<close>

lemma z_score_tables:
  "getZScore (Fin 0.05) = Fin 1.96 \<and> getZScore (Fin 0.01) = Fin 2.576
   \<and> getZScore (Fin 0.001) = Fin 3.291
   \<and> getPowerZScore (Fin 0.8) = Fin 0.842 \<and> getPowerZScore (Fin 0.9) = Fin 1.282
   \<and> getPowerZScore (Fin 0.95) = Fin 1.645"
  by (simp add: getZScore_def getPowerZScore_def)

lemma z_score_fallback:
  "p \<notin> {Fin 0.05, Fin 0.01, Fin 0.001} \<Longrightarrow>
     getZScore p = Math_abs (inverseNormalCDF (p / Fin 2))"
  "pw \<notin> {Fin 0.8, Fin 0.9, Fin 0.95} \<Longrightarrow>
     getPowerZScore pw = Math_abs (inverseNormalCDF (Fin 1 - pw))"
  by (simp_all add: getZScore_def getPowerZScore_def strict_eq_Fin)

lemma tabulated_alpha_quantile:
  assumes "al \<in> {Fin 0.05, Fin 0.01, Fin 0.001}"
  shows "\<exists>z. getZScore al = Fin z \<and> 0 < z"
proof -
  from assms consider "al = Fin 0.05" | "al = Fin 0.01" | "al = Fin 0.001" by auto
  then show ?thesis
  proof cases
    case 1
    then have "getZScore al = Fin 1.96 \<and> (0::real) < 1.96" by (simp add: getZScore_def)
    then show ?thesis by blast
  next
    case 2
    then have "getZScore al = Fin 2.576 \<and> (0::real) < 2.576" by (simp add: getZScore_def)
    then show ?thesis by blast
  next
    case 3
    then have "getZScore al = Fin 3.291 \<and> (0::real) < 3.291" by (simp add: getZScore_def)
    then show ?thesis by blast
  qed
qed

lemma tabulated_power_quantile:
  assumes "pw \<in> {Fin 0.8, Fin 0.9, Fin 0.95}"
  shows "\<exists>z. getPowerZScore pw = Fin z \<and> 0 < z"
proof -
  from assms consider "pw = Fin 0.8" | "pw = Fin 0.9" | "pw = Fin 0.95" by auto
  then show ?thesis
  proof cases
    case 1
    then have "getPowerZScore pw = Fin 0.842 \<and> (0::real) < 0.842"
      by (simp add: getPowerZScore_def)
    then show ?thesis by blast
  next
    case 2
    then have "getPowerZScore pw = Fin 1.282 \<and> (0::real) < 1.282"
      by (simp add: getPowerZScore_def)
    then show ?thesis by blast
  next
    case 3
    then have "getPowerZScore pw = Fin 1.645 \<and> (0::real) < 1.645"
      by (simp add: getPowerZScore_def)
    then show ?thesis by blast
  qed
qed

text \<open>
  At a table value the routine behind the fallback computes something else than the table
  holds: 0.5925 against the tabulated 0.842 at power 0.80.
\<close>

lemma table_hit_differs_from_approximation:
  "Math_abs (inverseNormalCDF (Fin 1 - Fin 0.8)) \<noteq> getPowerZScore (Fin 0.8)"
  by (simp add: inverseNormalCDF_def minus_number_def a_coef_def b_coef_def getPowerZScore_def)

text \<open>Bounds for the tail branch at 0.05, the argument of the fallback for alpha 0.10.\<close>

lemma exp_271: "exp (2.71::real) \<le> 20"
proof -
  have "exp (0.33875::real) \<le> 1 + 0.33875 + 0.33875\<^sup>2" by (rule exp_bound) simp_all
  then have b: "exp (0.33875::real) \<le> 1.4535015625" by (simp add: power2_eq_square)
  have "exp (2.71::real) = exp (of_nat 8 * 0.33875)" by simp
  also have "\<dots> = exp 0.33875 ^ 8" by (rule exp_of_nat_mult)
  also have "\<dots> \<le> (1.4535015625::real) ^ 8" by (rule power_mono [OF b]) simp
  also have "\<dots> \<le> 20" by (simp add: power_divide eval_nat_numeral)
  finally show ?thesis .
qed

lemma ln_005: "ln (0.05::real) \<le> - 2.71"
proof -
  have "inverse (20::real) \<le> inverse (exp 2.71)"
    using exp_271 by (simp only: le_imp_inverse_le exp_gt_zero)
  then have "(0.05::real) \<le> exp (- 2.71)" by (simp add: exp_minus)
  then have "exp (ln (0.05::real)) \<le> exp (- 2.71)" by simp
  then show ?thesis by (simp only: exp_le_cancel_iff)
qed

lemma lnln_005: "0.9 \<le> ln (- ln (0.05::real))"
proof -
  have "exp (0.9::real) \<le> 1 + 0.9 + 0.9\<^sup>2" by (rule exp_bound) simp_all
  also have "\<dots> \<le> 2.71" by (simp add: power2_eq_square)
  also have "\<dots> \<le> - ln (0.05::real)" using ln_005 by simp
  finally have "exp (0.9::real) \<le> - ln (0.05::real)" .
  moreover have "0 < - ln (0.05::real)" using ln_005 by simp
  ultimately show ?thesis by (simp only: ln_ge_iff)
qed

lemma tail_denominator_pos:
  fixes r :: real
  assumes "0 \<le> r"
  shows "0 < (3.754408661907416 * r + 2.445134137142996) * r + 0.3224671290700398"
proof -
  have "0 \<le> 3.754408661907416 * r + 2.445134137142996" using assms by simp
  then have "0 \<le> (3.754408661907416 * r + 2.445134137142996) * r"
    using assms by (rule mult_nonneg_nonneg)
  then show ?thesis by simp
qed

lemma tail_poly_below:
  fixes r :: real
  assumes "0.9 \<le> r"
  shows "(((- 2.549732539343734 * r + (- 2.400758277161838)) * r + (- 0.3223964580411365)) * r
            + (- 0.007784894002430293)) * r + 0.007784695709041462 * r + 1 < - 1.96"
proof -
  define A where "A = - 2.549732539343734 * r + (- 2.400758277161838)"
  define B where "B = A * r + (- 0.3223964580411365)"
  define C where "C = B * r + (- 0.007784894002430293)"
  define D where "D = C * r"
  have r0: "0 \<le> r" using assms by simp
  have "A \<le> - 4.69" unfolding A_def using assms by simp
  then have "A * r \<le> (- 4.69) * r" using r0 by (rule mult_right_mono)
  then have "B \<le> - 4.54" unfolding B_def using assms by simp
  then have "B * r \<le> (- 4.54) * r" using r0 by (rule mult_right_mono)
  then have "C \<le> - 4.09" unfolding C_def using assms by simp
  then have "C * r \<le> (- 4.09) * r" using r0 by (rule mult_right_mono)
  then have "D + 0.007784695709041462 * r + 1 < - 1.96" unfolding D_def using assms by simp
  then show ?thesis unfolding D_def C_def B_def A_def .
qed

lemma getZScore_at_alpha_010:
  "\<exists>z. getZScore (Fin 0.1) = Fin z \<and> 1.96 < z"
proof -
  define r where "r = ln (- ln (0.05::real))"
  have r9: "0.9 \<le> r" using lnln_005 by (simp add: r_def)
  have lp: "0 < - ln (0.05::real)" using ln_005 by simp
  have r0: "0 \<le> r" using r9 by simp
  have dpos: "(3.754408661907416 * r + 2.445134137142996) * r + 0.3224671290700398 \<noteq> 0"
    using tail_denominator_pos [OF r0] by simp
  have below: "(((- 2.549732539343734 * r + (- 2.400758277161838)) * r + (- 0.3223964580411365)) * r
            + (- 0.007784894002430293)) * r + 0.007784695709041462 * r + 1 < - 1.96"
    using r9 by (rule tail_poly_below)
  have logs: "Math_log (- Math_log (Fin 0.05)) = Fin r"
    using lp by (simp add: r_def)
  have cond1: "\<not> num_lt (Math_abs (Fin 0.05 - Fin 0.5)) (Fin 0.42)"
    by (simp add: minus_number_def)
  have cond2: "\<not> num_gt (Fin 0.05 - Fin 0.5) (Fin 0)"
    by (simp add: minus_number_def num_gt_def)
  have cond3: "num_lt (Fin 0.05 - Fin 0.5) (Fin 0)"
    by (simp add: minus_number_def)
  have val: "inverseNormalCDF (Fin 0.05) =
     Fin (- ((((- 2.549732539343734 * r + (- 2.400758277161838)) * r + (- 0.3223964580411365)) * r
            + (- 0.007784894002430293)) * r + 0.007784695709041462 * r + 1))"
    unfolding inverseNormalCDF_def Let_def
    apply (simp only: cond1 cond2 cond3 if_True if_False logs)
    apply (insert dpos)
    apply (simp add: c_coef_def d_coef_def)
    done
  define v where "v = - ((((- 2.549732539343734 * r + (- 2.400758277161838)) * r
            + (- 0.3223964580411365)) * r + (- 0.007784894002430293)) * r
            + 0.007784695709041462 * r + 1)"
  have v: "1.96 < v" using below by (simp add: v_def)
  have half: "Fin 0.1 / Fin 2 = Fin 0.05" by simp
  have "getZScore (Fin 0.1) = Math_abs (inverseNormalCDF (Fin 0.05))"
    by (simp add: getZScore_def half del: divide_number.simps)
  also have "\<dots> = Math_abs (Fin v)" by (simp only: val v_def)
  also have "\<dots> = Fin v" using v by simp
  finally show ?thesis using v by blast
qed

text \<open>
  C6. Outside the tables the resolver is to return the magnitude of an approximation of the
  inverse normal CDF at \<open>alpha / 2\<close> or \<open>1 - power\<close>. The routine the code calls is not
  one: in both of its branches the quotient is applied to \<open>a[0]\<close> and \<open>c[0]\<close> alone, which
  are zero, so the value is a bare polynomial. For alpha 0.10 the resolver returns more
  than the 1.96 it returns for alpha 0.05 (about 6.25, where the normal quantile is 1.645);
  for power 0.85 it returns 0.7082, less than the 0.842 of power 0.80 (normal quantile
  1.036); for alpha 0.5 it returns 0.4208 (normal quantile 0.6745); and the routine is
  positive at 0.25, below the median, where a quantile is negative.
\<close>

theorem fallback_is_not_the_normal_quantile:
  "num_lt (getZScore (Fin 0.05)) (getZScore (Fin 0.1))
   \<and> num_lt (getPowerZScore (Fin 0.85)) (getPowerZScore (Fin 0.8))
   \<and> num_lt (Fin 0.7081) (getPowerZScore (Fin 0.85))
   \<and> num_lt (getPowerZScore (Fin 0.85)) (Fin 0.7082)
   \<and> num_lt (Fin 0.4208) (getZScore (Fin 0.5))
   \<and> num_lt (getZScore (Fin 0.5)) (Fin 0.4209)
   \<and> num_lt (Fin 0) (inverseNormalCDF (Fin 0.25))"
proof -
  obtain z where "getZScore (Fin 0.1) = Fin z" and "1.96 < z"
    using getZScore_at_alpha_010 by blast
  then have "num_lt (getZScore (Fin 0.05)) (getZScore (Fin 0.1))"
    by (simp add: getZScore_def)
  moreover have "num_lt (getPowerZScore (Fin 0.85)) (getPowerZScore (Fin 0.8))
   \<and> num_lt (Fin 0.7081) (getPowerZScore (Fin 0.85))
   \<and> num_lt (getPowerZScore (Fin 0.85)) (Fin 0.7082)
   \<and> num_lt (Fin 0.4208) (getZScore (Fin 0.5))
   \<and> num_lt (getZScore (Fin 0.5)) (Fin 0.4209)
   \<and> num_lt (Fin 0) (inverseNormalCDF (Fin 0.25))"
    by (simp add: getZScore_def getPowerZScore_def inverseNormalCDF_def minus_number_def
          a_coef_def b_coef_def)
  ultimately show ?thesis by blast
qed

section \<open>The total sample size\<close>

text \<open>
  C5 as stated does not hold: "paired wilcoxon test" is not in the paired t-test family (it
  takes the default branch, per-group size 63), yet its total is the per-group size and not
  the per-group size times the two groups.
\<close>

theorem paired_substring_outside_family_not_multiplied:
  "toLowerCase ''paired wilcoxon test'' \<notin> {''paired t-test'', ''dependent t-test''}
   \<and> sampleSize (calculateSampleSize \<lparr>testType = ''paired wilcoxon test'', effectSize = Fin 0.5,
          power_p = Fin 0.8, alpha = Fin 0.05, groups = Some (Fin 2)\<rparr>) = Fin 63
   \<and> totalSampleSize (calculateSampleSize \<lparr>testType = ''paired wilcoxon test'',
          effectSize = Fin 0.5, power_p = Fin 0.8, alpha = Fin 0.05, groups = Some (Fin 2)\<rparr>)
       = Fin 63"
  by (simp add: total_unfold sampleSize_unfold lower_paired_wilcoxon family_branch_def
        getZScore_def getPowerZScore_def)

text \<open>
  The alias "dependent t-test" takes the paired branch of the \<open>switch\<close> (per-group size 32),
  but its name does not contain "paired", so its total is multiplied by the groups.
\<close>

lemma dependent_t_test_total:
  "sampleSize (calculateSampleSize \<lparr>testType = ''dependent t-test'', effectSize = Fin 0.5,
          power_p = Fin 0.8, alpha = Fin 0.05, groups = Some (Fin 2)\<rparr>) = Fin 32
   \<and> totalSampleSize (calculateSampleSize \<lparr>testType = ''dependent t-test'', effectSize = Fin 0.5,
          power_p = Fin 0.8, alpha = Fin 0.05, groups = Some (Fin 2)\<rparr>) = Fin 64"
  by (simp add: total_unfold sampleSize_unfold lower_dependent family_branch_def
        getZScore_def getPowerZScore_def groups_or_default_def)

text \<open>
  C5 (as amended). When the lower-cased test type contains "paired" (as "paired t-test"
  does in any casing), the total is the per-group size, with no multiplication; when it
  does not contain "paired" and is not the alias "dependent t-test", the total is the
  per-group size times the groups (2 when absent).
\<close>

theorem total_by_paired_substring:
  "(includes_str (toLowerCase t) ''paired'' \<longrightarrow>
      totalSampleSize (calculateSampleSize \<lparr>testType = t, effectSize = e, power_p = pw,
          alpha = al, groups = g\<rparr>)
      = sampleSize (calculateSampleSize \<lparr>testType = t, effectSize = e, power_p = pw,
          alpha = al, groups = g\<rparr>))
   \<and> (\<not> includes_str (toLowerCase t) ''paired'' \<and> toLowerCase t \<noteq> ''dependent t-test'' \<longrightarrow>
      totalSampleSize (calculateSampleSize \<lparr>testType = t, effectSize = e, power_p = pw,
          alpha = al, groups = g\<rparr>)
      = sampleSize (calculateSampleSize \<lparr>testType = t, effectSize = e, power_p = pw,
          alpha = al, groups = g\<rparr>) * groups_or_default g)"
  by (simp add: total_unfold)

theorem total_by_paired_substring_witness:
  "includes_str (toLowerCase ''Paired T-Test'') ''paired''
   \<and> sampleSize (calculateSampleSize \<lparr>testType = ''Paired T-Test'', effectSize = Fin 0.5,
          power_p = Fin 0.8, alpha = Fin 0.05, groups = None\<rparr>) = Fin 32
   \<and> totalSampleSize (calculateSampleSize \<lparr>testType = ''Paired T-Test'', effectSize = Fin 0.5,
          power_p = Fin 0.8, alpha = Fin 0.05, groups = None\<rparr>) = Fin 32
   \<and> \<not> includes_str (toLowerCase ''two-sample t-test'') ''paired''
   \<and> toLowerCase ''two-sample t-test'' \<noteq> ''dependent t-test''
   \<and> sampleSize (calculateSampleSize \<lparr>testType = ''two-sample t-test'', effectSize = Fin 0.5,
          power_p = Fin 0.8, alpha = Fin 0.05, groups = Some (Fin 3)\<rparr>) = Fin 63
   \<and> totalSampleSize (calculateSampleSize \<lparr>testType = ''two-sample t-test'', effectSize = Fin 0.5,
          power_p = Fin 0.8, alpha = Fin 0.05, groups = Some (Fin 3)\<rparr>) = Fin 189"
proof -
  have s1: "sampleSize (calculateSampleSize \<lparr>testType = ''Paired T-Test'', effectSize = Fin 0.5,
          power_p = Fin 0.8, alpha = Fin 0.05, groups = None\<rparr>) = Fin 32"
    by (simp add: sampleSize_unfold lower_Paired family_branch_def getZScore_def
          getPowerZScore_def)
  have s2: "sampleSize (calculateSampleSize \<lparr>testType = ''two-sample t-test'',
          effectSize = Fin 0.5, power_p = Fin 0.8, alpha = Fin 0.05, groups = Some (Fin 3)\<rparr>)
        = Fin 63"
    by (simp add: sampleSize_unfold lower_two_sample family_branch_def getZScore_def
          getPowerZScore_def)
  have h1: "includes_str (toLowerCase ''Paired T-Test'') ''paired''"
    by (simp add: lower_Paired)
  have h2: "\<not> includes_str (toLowerCase ''two-sample t-test'') ''paired''
      \<and> toLowerCase ''two-sample t-test'' \<noteq> ''dependent t-test''"
    by (simp add: lower_two_sample)
  from total_by_paired_substring [of "''Paired T-Test''" "Fin 0.5" "Fin 0.8" "Fin 0.05" None]
    h1 s1
  have t1: "totalSampleSize (calculateSampleSize \<lparr>testType = ''Paired T-Test'',
          effectSize = Fin 0.5, power_p = Fin 0.8, alpha = Fin 0.05, groups = None\<rparr>) = Fin 32"
    by simp
  from total_by_paired_substring
         [of "''two-sample t-test''" "Fin 0.5" "Fin 0.8" "Fin 0.05" "Some (Fin 3)"] h2 s2
  have t2: "totalSampleSize (calculateSampleSize \<lparr>testType = ''two-sample t-test'',
          effectSize = Fin 0.5, power_p = Fin 0.8, alpha = Fin 0.05, groups = Some (Fin 3)\<rparr>)
        = Fin 189"
    by (simp add: groups_or_default_def)
  from h1 h2 s1 s2 t1 t2 show ?thesis by blast
qed

section \<open>The default branch\<close>

text \<open>
  C7 as stated does not hold: "unpaired t-test" is no case label of the \<open>switch\<close>, and its
  total is 63 where the total of "two-sample t-test" at the same parameters is 126.
\<close>

theorem unrecognized_with_paired_differs:
  "toLowerCase ''unpaired t-test'' \<notin> set known_test_types
   \<and> totalSampleSize (calculateSampleSize \<lparr>testType = ''unpaired t-test'', effectSize = Fin 0.5,
        power_p = Fin 0.8, alpha = Fin 0.05, groups = Some (Fin 2)\<rparr>) = Fin 63
   \<and> totalSampleSize (calculateSampleSize \<lparr>testType = ''two-sample t-test'',
        effectSize = Fin 0.5, power_p = Fin 0.8, alpha = Fin 0.05, groups = Some (Fin 2)\<rparr>)
     = Fin 126"
  by (simp add: total_unfold sampleSize_unfold lower_unpaired lower_two_sample
        known_test_types_def family_branch_def getZScore_def getPowerZScore_def
        groups_or_default_def)

text \<open>
  C7 (as amended). For every test type whose lower-cased form is no case label of the
  \<open>switch\<close>, the per-group size and the formula string are those of "two-sample t-test" at
  the same numeric parameters; the total and the adjusted size are too when the
  lower-cased test type does not contain "paired".
\<close>

theorem unrecognized_falls_back_to_two_sample:
  assumes "toLowerCase t \<notin> set known_test_types"
  shows "sampleSize (calculateSampleSize \<lparr>testType = t, effectSize = e, power_p = pw,
            alpha = al, groups = g\<rparr>)
         = sampleSize (calculateSampleSize \<lparr>testType = ''two-sample t-test'', effectSize = e,
            power_p = pw, alpha = al, groups = g\<rparr>)
       \<and> formula (calculateSampleSize \<lparr>testType = t, effectSize = e, power_p = pw,
            alpha = al, groups = g\<rparr>)
         = formula (calculateSampleSize \<lparr>testType = ''two-sample t-test'', effectSize = e,
            power_p = pw, alpha = al, groups = g\<rparr>)
       \<and> (\<not> includes_str (toLowerCase t) ''paired'' \<longrightarrow>
            totalSampleSize (calculateSampleSize \<lparr>testType = t, effectSize = e, power_p = pw,
              alpha = al, groups = g\<rparr>)
            = totalSampleSize (calculateSampleSize \<lparr>testType = ''two-sample t-test'',
              effectSize = e, power_p = pw, alpha = al, groups = g\<rparr>)
          \<and> adjustedSampleSize (calculateSampleSize \<lparr>testType = t, effectSize = e,
              power_p = pw, alpha = al, groups = g\<rparr>)
            = adjustedSampleSize (calculateSampleSize \<lparr>testType = ''two-sample t-test'',
              effectSize = e, power_p = pw, alpha = al, groups = g\<rparr>))"
  using family_branch_default [OF assms]
  by (simp add: adjusted_unfold total_unfold sampleSize_unfold formula_unfold lower_two_sample)

theorem unrecognized_falls_back_to_two_sample_witness:
  "toLowerCase ''regression'' \<notin> set known_test_types
   \<and> \<not> includes_str (toLowerCase ''regression'') ''paired''
   \<and> sampleSize (calculateSampleSize \<lparr>testType = ''regression'', effectSize = Fin 0.5,
        power_p = Fin 0.8, alpha = Fin 0.05, groups = None\<rparr>)
     = sampleSize (calculateSampleSize \<lparr>testType = ''two-sample t-test'', effectSize = Fin 0.5,
        power_p = Fin 0.8, alpha = Fin 0.05, groups = None\<rparr>)
   \<and> formula (calculateSampleSize \<lparr>testType = ''regression'', effectSize = Fin 0.5,
        power_p = Fin 0.8, alpha = Fin 0.05, groups = None\<rparr>)
     = formula (calculateSampleSize \<lparr>testType = ''two-sample t-test'', effectSize = Fin 0.5,
        power_p = Fin 0.8, alpha = Fin 0.05, groups = None\<rparr>)
   \<and> totalSampleSize (calculateSampleSize \<lparr>testType = ''regression'', effectSize = Fin 0.5,
        power_p = Fin 0.8, alpha = Fin 0.05, groups = None\<rparr>)
     = totalSampleSize (calculateSampleSize \<lparr>testType = ''two-sample t-test'',
        effectSize = Fin 0.5, power_p = Fin 0.8, alpha = Fin 0.05, groups = None\<rparr>)
   \<and> adjustedSampleSize (calculateSampleSize \<lparr>testType = ''regression'', effectSize = Fin 0.5,
        power_p = Fin 0.8, alpha = Fin 0.05, groups = None\<rparr>)
     = adjustedSampleSize (calculateSampleSize \<lparr>testType = ''two-sample t-test'',
        effectSize = Fin 0.5, power_p = Fin 0.8, alpha = Fin 0.05, groups = None\<rparr>)"
proof -
  have h1: "toLowerCase ''regression'' \<notin> set known_test_types"
    by (simp add: lower_regression known_test_types_def)
  have h2: "\<not> includes_str (toLowerCase ''regression'') ''paired''"
    by (simp add: lower_regression)
  from unrecognized_falls_back_to_two_sample [OF h1, of "Fin 0.5" "Fin 0.8" "Fin 0.05" None]
    h1 h2
  show ?thesis by blast
qed

section \<open>Degenerate effect sizes\<close>

lemma signed_inf_nonfinite: "\<not> isFinite (signed_inf s)"
  by (simp add: signed_inf_def)

lemma div_zero_nonfinite: "\<not> isFinite (a / Fin 0)"
  by (cases a) (simp_all add: signed_inf_nonfinite)

lemma times_nonfinite: "\<not> isFinite a \<Longrightarrow> \<not> isFinite (a * b)"
  by (cases a; cases b) (simp_all add: signed_inf_nonfinite)

lemma plus_Fin_nonfinite: "\<not> isFinite a \<Longrightarrow> \<not> isFinite (a + Fin y)"
  by (cases a) simp_all

lemma ceil_finite_iff: "isFinite (Math_ceil a) = isFinite a"
  by (cases a) simp_all

lemma div_times_zero_nonfinite: "c \<noteq> 0 \<Longrightarrow> \<not> isFinite (Fin c / (grp * Fin 0))"
  by (cases grp) (simp_all add: signed_inf_def)

lemma family_branch_zero_effect:
  "\<not> isFinite (fst (family_branch tt (Fin 0) pw al grp))"
  by (simp add: family_branch_def Let_def ceil_finite_iff div_zero_nonfinite
        plus_Fin_nonfinite calculateANOVASampleSize_def div_times_zero_nonfinite minus_number_def)


lemma lower_correlation: "toLowerCase ''correlation test'' = ''correlation test''"
  by code_simp

text \<open>
  C4 as stated does not hold: a correlation test with effect size 1 returns finite fields.
  The Fisher transform is \<open>Infinity\<close> there, its square divides the numerator to zero, and
  the per-group size is \<open>ceil(0 + 3) = 3\<close>, the total 6 and the adjusted size 8.
\<close>

theorem correlation_one_is_finite:
  "sampleSize (calculateSampleSize \<lparr>testType = ''correlation test'', effectSize = Fin 1,
        power_p = Fin 0.8, alpha = Fin 0.05, groups = Some (Fin 2)\<rparr>) = Fin 3
   \<and> totalSampleSize (calculateSampleSize \<lparr>testType = ''correlation test'', effectSize = Fin 1,
        power_p = Fin 0.8, alpha = Fin 0.05, groups = Some (Fin 2)\<rparr>) = Fin 6
   \<and> adjustedSampleSize (calculateSampleSize \<lparr>testType = ''correlation test'',
        effectSize = Fin 1, power_p = Fin 0.8, alpha = Fin 0.05, groups = Some (Fin 2)\<rparr>) = Fin 8"
  by (simp add: adjusted_unfold total_unfold sampleSize_unfold lower_correlation family_branch_def
        getZScore_def getPowerZScore_def groups_or_default_def minus_number_def signed_inf_def)

text \<open>
  A value that is not a string makes the call throw; a string never does.
\<close>

lemma non_string_testType_throws:
  "calculateSampleSize_call (JNumber (Fin 5)) eff pw al g = Inl TypeError"
  "calculateSampleSize_call JUndefined eff pw al g = Inl TypeError"
  by (simp_all add: calculateSampleSize_call_def)

text \<open>
  C4 (as amended). For every string test type and every numeric effect size, power, alpha
  and groups, the call returns a result and throws nothing. For every test type, power,
  alpha and groups, the effect size 0 gives a non-finite \<open>sampleSize\<close>,
  \<open>totalSampleSize\<close> and \<open>adjustedSampleSize\<close>. A correlation test with effect size 1
  or -1 is not degenerate in that way: at the tabulated alpha and power values its
  per-group size is the finite number 3.
\<close>

theorem degenerate_effect_sizes:
  "calculateSampleSize_call (JString t) eff pw al g
     = Inr (calculateSampleSize
              \<lparr>testType = t, effectSize = eff, power_p = pw, alpha = al, groups = g\<rparr>)
   \<and> \<not> isFinite (sampleSize (calculateSampleSize \<lparr>testType = t, effectSize = Fin 0,
        power_p = pw, alpha = al, groups = g\<rparr>))
   \<and> \<not> isFinite (totalSampleSize (calculateSampleSize \<lparr>testType = t, effectSize = Fin 0,
        power_p = pw, alpha = al, groups = g\<rparr>))
   \<and> \<not> isFinite (adjustedSampleSize (calculateSampleSize \<lparr>testType = t, effectSize = Fin 0,
        power_p = pw, alpha = al, groups = g\<rparr>))
   \<and> (al \<in> {Fin 0.05, Fin 0.01, Fin 0.001} \<and> pw \<in> {Fin 0.8, Fin 0.9, Fin 0.95} \<longrightarrow>
        sampleSize (calculateSampleSize \<lparr>testType = ''correlation test'', effectSize = Fin 1,
          power_p = pw, alpha = al, groups = g\<rparr>) = Fin 3
      \<and> sampleSize (calculateSampleSize \<lparr>testType = ''correlation test'',
          effectSize = Fin (- 1), power_p = pw, alpha = al, groups = g\<rparr>) = Fin 3)"
proof -
  have call: "calculateSampleSize_call (JString t) eff pw al g
     = Inr (calculateSampleSize
              \<lparr>testType = t, effectSize = eff, power_p = pw, alpha = al, groups = g\<rparr>)"
    by (simp add: calculateSampleSize_call_def)
  have zero: "\<not> isFinite (sampleSize (calculateSampleSize \<lparr>testType = t, effectSize = Fin 0,
        power_p = pw, alpha = al, groups = g\<rparr>))"
    by (simp add: sampleSize_unfold family_branch_zero_effect)
  then have total: "\<not> isFinite (totalSampleSize (calculateSampleSize \<lparr>testType = t,
        effectSize = Fin 0, power_p = pw, alpha = al, groups = g\<rparr>))"
    by (simp add: total_unfold times_nonfinite)
  then have adjusted: "\<not> isFinite (adjustedSampleSize (calculateSampleSize \<lparr>testType = t,
        effectSize = Fin 0, power_p = pw, alpha = al, groups = g\<rparr>))"
    by (simp add: adjusted_unfold ceil_finite_iff times_nonfinite)
  have corr: "sampleSize (calculateSampleSize \<lparr>testType = ''correlation test'',
          effectSize = Fin 1, power_p = pw, alpha = al, groups = g\<rparr>) = Fin 3
      \<and> sampleSize (calculateSampleSize \<lparr>testType = ''correlation test'',
          effectSize = Fin (- 1), power_p = pw, alpha = al, groups = g\<rparr>) = Fin 3"
    if ta: "al \<in> {Fin 0.05, Fin 0.01, Fin 0.001}" and tb: "pw \<in> {Fin 0.8, Fin 0.9, Fin 0.95}"
  proof -
    obtain za where za: "getZScore al = Fin za"
      using tabulated_alpha_quantile [OF ta] by blast
    obtain zb where zb: "getPowerZScore pw = Fin zb"
      using tabulated_power_quantile [OF tb] by blast
    show ?thesis
      by (simp add: sampleSize_unfold lower_correlation family_branch_def za zb
            minus_number_def signed_inf_def)
  qed
  from call zero total adjusted corr show ?thesis by blast
qed

theorem degenerate_effect_sizes_witness:
  "Fin 0.05 \<in> {Fin 0.05, Fin 0.01, Fin 0.001} \<and> Fin 0.8 \<in> {Fin 0.8, Fin 0.9, Fin 0.95}
   \<and> calculateSampleSize_call (JString ''correlation test'') (Fin 1) (Fin 0.8) (Fin 0.05) None
       = Inr (calculateSampleSize \<lparr>testType = ''correlation test'', effectSize = Fin 1,
                power_p = Fin 0.8, alpha = Fin 0.05, groups = None\<rparr>)
   \<and> sampleSize (calculateSampleSize \<lparr>testType = ''correlation test'', effectSize = Fin 1,
          power_p = Fin 0.8, alpha = Fin 0.05, groups = None\<rparr>) = Fin 3
   \<and> sampleSize (calculateSampleSize \<lparr>testType = ''correlation test'', effectSize = Fin (- 1),
          power_p = Fin 0.8, alpha = Fin 0.05, groups = None\<rparr>) = Fin 3
   \<and> \<not> isFinite (sampleSize (calculateSampleSize \<lparr>testType = ''correlation test'',
          effectSize = Fin 0, power_p = Fin 0.8, alpha = Fin 0.05, groups = None\<rparr>))"
proof -
  have ta: "Fin 0.05 \<in> {Fin 0.05, Fin 0.01, Fin 0.001}" by simp
  have tb: "Fin 0.8 \<in> {Fin 0.8, Fin 0.9, Fin 0.95}" by simp
  from degenerate_effect_sizes
         [of "''correlation test''" "Fin 1" "Fin 0.8" "Fin 0.05" None] ta tb
  show ?thesis by blast
qed

section \<open>The inflation chain\<close>
















end
